theory Spec2Isabelle
  imports Complex_Main
begin

section \<open>Data model of \<open>openml/datasets/dataset.py\<close>\<close>

subsection \<open>Exceptions\<close>

text \<open>
  Exceptions of the Python source are values of the type \<open>error\<close>; a function that can
  raise returns \<open>error + 'a\<close> with \<open>Inl\<close> for the exception. The string carried by
  \<open>ValueError\<close>, \<open>NotImplementedError\<close>, \<open>KeyError\<close> and \<open>PyOpenMLError\<close> is the
  message (the key, for \<open>KeyError\<close>). \<open>FileNotFoundError\<close> is a subclass of
  \<open>OSError\<close> in Python, which \<open>is_OSError\<close> records.
\<close>

datatype error =
    EOFError
  | FileNotFoundError
  | OSError
  | ValueError string
  | NotImplementedError string
  | IndexError
  | TypeError
  | KeyError string
  | OverflowError
  | AttributeError
  | UnpicklingError
  | ArrowInvalid
  | ArffException
  | PyOpenMLError string

definition is_OSError :: "error \<Rightarrow> bool" where
  "is_OSError e = (e = OSError \<or> e = FileNotFoundError)"

subsection \<open>Cells, series and tables\<close>

text \<open>
  A cell of a decoded column. The ARFF decoder (an external library, called with
  \<open>encode_nominal=True\<close>) yields integers for nominal values, numbers for numeric values,
  text for string values and \<open>None\<close> for a missing value; pandas turns \<open>None\<close> in a
  numeric column into NaN and the integers beside it into floats. \<open>CInf\<close> is a float
  infinity of either sign. Finite floats are rationals: rounding to 32 or 64 bits is not
  modelled.
\<close>

datatype cell = CInt int | CFloat rat | CNaN | CInf | CNone | CStr string

text \<open>A category label: the declared text, or a boolean after the boolean collapse.\<close>

datatype label = LStr string | LBool bool

text \<open>
  A pandas series is either plain (its cells as decoded) or categorical: the values
  (\<open>None\<close> is NaN) and the ordered category list. A column is a named series.
\<close>

datatype series = Plain "cell list" | Categorical "label option list" "label list"

type_synonym column = "string \<times> series"

text \<open>
  The in-memory table: a pandas \<open>DataFrame\<close> (its columns in order), a scipy
  \<open>csr_matrix\<close> (row count, column count and the stored entries as value, row, column),
  or a NumPy array (its columns in order), which is what caches written before version 0.9
  hold and what the array output format returns.
\<close>

datatype table =
    DataFrame "column list"
  | CsrMatrix nat nat "(cell \<times> nat \<times> nat) list"
  | NdArray "cell list list"

text \<open>
  The values that \<open>get_data\<close> converts and hands back as \<open>X\<close> or \<open>y\<close>: a table, a
  single series, a one-dimensional array, a NumPy scalar or zero-dimensional array
  (\<open>Arr0\<close>), a plain Python object taken out of an object column (\<open>PyObj\<close>: text or
  \<open>None\<close>), the value of a single categorical entry (\<open>CatValue\<close>: a label, or NaN as
  \<open>None\<close>), or a pandas \<open>SparseDataFrame\<close> built from a sparse matrix and column names.
\<close>

datatype pyvalue =
    Tab table
  | Ser series
  | Arr1 "cell list"
  | Arr0 cell
  | PyObj cell
  | CatValue "label option"

datatype returned =
    Val pyvalue
  | SparseDataFrame table "string list"

subsection \<open>Files\<close>

text \<open>
  The decoded ARFF document: the attribute declarations in file order, each a name with
  either a primitive type tag or the list of nominal labels, and the data, as rows for
  \<open>return_type=arff.DENSE\<close> and as the coordinate triple (values, rows, columns) for
  \<open>return_type=arff.COO\<close>.
\<close>

datatype arff_type = Prim string | Nominal "string list"

datatype arff_data = DenseData "cell list list" | COOData "cell list" "nat list" "nat list"

record arff_doc =
  doc_attributes :: "(string \<times> arff_type) list"
  doc_data :: arff_data

datatype return_type = DENSE | COO

text \<open>A pickled object: the pair written beside a feather file, or the triple of a pickle
  cache.\<close>

datatype pickled =
    P2 "bool list" "string list"
  | P3 table "bool list" "string list"

text \<open>
  The content of a file, as far as the libraries that read it tell it apart. An ARFF file
  is what the decoder returns for it, for each return type (the decoder is an external
  library; opening the file plainly or through gzip is part of that reading). A feather
  file holds a table, a pickle file a pickled object. \<open>Truncated\<close> is a file on which
  \<open>pickle.load\<close> meets the end of the data (\<open>EOFError\<close>), a zero-length file for
  instance.
\<close>

datatype content =
    ArffFile "return_type \<Rightarrow> error + arff_doc"
  | FeatherFile table
  | PickleFile pickled
  | Truncated

subsection \<open>The world outside the object\<close>

text \<open>
  The file system maps a path to the content of the file there. \<open>bits\<close> is the pointer
  width of the interpreter (\<open>8 * struct.calcsize("P")\<close>) and \<open>getsize\<close> what
  \<open>os.path.getsize\<close> reports. \<open>trace\<close> records, in order, what the code did to the world:
  each call of the ARFF decoder, each file written and each logging call (the level, the
  message template and its arguments).
\<close>

datatype level = DEBUG | INFO | WARNING | CRITICAL

datatype event =
    Decode string return_type
  | WriteFeather string
  | WritePickle string
  | Log level string "string list"

record world =
  fs :: "string \<Rightarrow> content option"
  bits :: nat
  getsize :: "string \<Rightarrow> nat"
  trace :: "event list"

subsection \<open>The dataset object\<close>

text \<open>
  The fields of \<open>OpenMLDataset\<close> that the cache, load and access methods read or
  assign. \<open>row_id_attribute\<close> and \<open>ignore_attribute\<close> are tested with
  \<open>isinstance(_, str)\<close> and \<open>isinstance(_, Iterable)\<close>: \<open>AStr\<close> is a string, \<open>AList\<close> an
  iterable of names, \<open>AOther\<close> any other value.
\<close>

datatype attr = AStr string | AList "string list" | AOther

record dataset =
  dataset_id :: "int option"
  name :: string
  format :: string
  cache_format :: string
  data_file :: "string option"
  data_pickle_file :: "string option"
  data_feather_file :: "string option"
  row_id_attribute :: "attr option"
  ignore_attribute :: "attr option"

subsection \<open>External collaborators\<close>

text \<open>
  What the Python runtime, NumPy and the download helper do, taken as parameters:
  \<open>int_of_text s\<close> is \<open>int(s)\<close> on a string (\<open>None\<close> when it raises ValueError),
  \<open>float_of_text s\<close> is the float NumPy reads from a string (\<open>None\<close> when it raises
  ValueError), \<open>nonfinite_as_int\<close> is the integer that \<open>astype(int)\<close> gives for NaN and
  the infinities, and \<open>get_dataset_arff\<close> is \<open>functions._get_dataset_arff\<close>, which
  downloads the ARFF file and returns its path.
\<close>

record env =
  int_of_text :: "string \<Rightarrow> int option"
  float_of_text :: "string \<Rightarrow> cell option"
  nonfinite_as_int :: int
  get_dataset_arff :: "dataset \<Rightarrow> world \<Rightarrow> (error + string) \<times> world"

section \<open>Strings\<close>

text \<open>
  \<open>str.lower\<close> and \<open>str.capitalize\<close> on the ASCII letters; every other character is
  left as it is.
\<close>

definition lower_char :: "char \<Rightarrow> char" where
  "lower_char c =
     (case map_of (zip ''ABCDEFGHIJKLMNOPQRSTUVWXYZ'' ''abcdefghijklmnopqrstuvwxyz'') c of
        None \<Rightarrow> c | Some d \<Rightarrow> d)"

definition upper_char :: "char \<Rightarrow> char" where
  "upper_char c =
     (case map_of (zip ''abcdefghijklmnopqrstuvwxyz'' ''ABCDEFGHIJKLMNOPQRSTUVWXYZ'') c of
        None \<Rightarrow> c | Some d \<Rightarrow> d)"

definition lower :: "string \<Rightarrow> string" where
  "lower s = map lower_char s"

fun capitalize :: "string \<Rightarrow> string" where
  "capitalize [] = []"
| "capitalize (c # cs) = upper_char c # map lower_char cs"

text \<open>\<open>target.split(',')\<close>: the pieces between the commas, empty pieces included.\<close>

fun split_comma :: "string \<Rightarrow> string list" where
  "split_comma [] = [[]]"
| "split_comma (c # cs) =
     (if c = CHR '','' then [] # split_comma cs
      else (case split_comma cs of
              [] \<Rightarrow> [[c]]
            | piece # pieces \<Rightarrow> (c # piece) # pieces))"

text \<open>\<open>data_file.replace('.arff', new)\<close>: every occurrence, from the left.\<close>

function replace_arff :: "string \<Rightarrow> string \<Rightarrow> string" where
  "replace_arff new s =
     (if s = [] then []
      else if take 5 s = ''.arff'' then new @ replace_arff new (drop 5 s)
      else hd s # replace_arff new (tl s))"
  by pat_completeness auto
termination
  by (relation "measure (\<lambda>(new, s). length s)") auto

declare replace_arff.simps [simp del]

text \<open>Decimal rendering, as \<open>%d\<close> and \<open>{}\<close> do for an integer.\<close>

function show_nat :: "nat \<Rightarrow> string" where
  "show_nat n =
     (if n < 10 then [''0123456789'' ! n]
      else show_nat (n div 10) @ [''0123456789'' ! (n mod 10)])"
  by pat_completeness auto
termination
  by (relation "measure id") auto

declare show_nat.simps [simp del]

definition show_int :: "int \<Rightarrow> string" where
  "show_int i = (if i < 0 then CHR ''-'' # show_nat (nat (- i)) else show_nat (nat i))"

section \<open>The category unpacker\<close>

text \<open>
  Python's \<open>int(x)\<close>: truncation towards zero on a finite float, ValueError on NaN and on
  text that is no integer literal, OverflowError on an infinity, TypeError on \<open>None\<close>.
\<close>

fun py_int :: "env \<Rightarrow> cell \<Rightarrow> error + int" where
  "py_int rt (CInt i) = Inr i"
| "py_int rt (CFloat q) = Inr (if 0 \<le> q then \<lfloor>q\<rfloor> else \<lceil>q\<rceil>)"
| "py_int rt CNaN = Inl (ValueError ''cannot convert float NaN to integer'')"
| "py_int rt CInf = Inl OverflowError"
| "py_int rt CNone = Inl TypeError"
| "py_int rt (CStr s) =
     (case int_of_text rt s of
        None \<Rightarrow> Inl (ValueError ''invalid literal for int() with base 10'')
      | Some i \<Rightarrow> Inr i)"

text \<open>
  Indexing a Python list, \<open>xs[i]\<close>: positions \<open>0\<close> to \<open>len(xs) - 1\<close> read from the
  front, positions \<open>-len(xs)\<close> to \<open>-1\<close> read from the back, and every other integer
  raises IndexError.
\<close>

definition py_index :: "'a list \<Rightarrow> int \<Rightarrow> error + 'a" where
  "py_index xs i =
     (if 0 \<le> i \<and> i < int (length xs) then Inr (xs ! nat i)
      else if i < 0 \<and> - int (length xs) \<le> i then Inr (xs ! nat (int (length xs) + i))
      else Inl IndexError)"

text \<open>
  \<open>pd.Categorical(col, ordered=True, categories=categories)\<close> refuses a category list
  with a repeated label and turns every value that is no category into NaN.
\<close>

definition pd_Categorical :: "label option list \<Rightarrow> label list \<Rightarrow> error + series" where
  "pd_Categorical col categories =
     (if \<not> distinct categories then Inl (ValueError ''Categorical categories must be unique'')
      else Inr (Categorical
                  (map (\<lambda>v. case v of None \<Rightarrow> None
                            | Some l \<Rightarrow> if l \<in> set categories then Some l else None) col)
                  categories))"

text \<open>
  The loop of \<open>_unpack_categories\<close>: \<open>col.append(categories[int(x)])\<close> under
  \<open>except (TypeError, ValueError): col.append(np.nan)\<close>. Any other exception of
  \<open>int(x)\<close> or of the indexing leaves the function.
\<close>

fun unpack_loop :: "env \<Rightarrow> cell list \<Rightarrow> label list \<Rightarrow> error + label option list" where
  "unpack_loop rt [] categories = Inr []"
| "unpack_loop rt (x # xs) categories =
     (case (case py_int rt x of Inl e \<Rightarrow> Inl e | Inr i \<Rightarrow> py_index categories i) of
        Inl TypeError \<Rightarrow> map_sum id (Cons None) (unpack_loop rt xs categories)
      | Inl (ValueError m) \<Rightarrow> map_sum id (Cons None) (unpack_loop rt xs categories)
      | Inl e \<Rightarrow> Inl e
      | Inr l \<Rightarrow> map_sum id (Cons (Some l)) (unpack_loop rt xs categories))"

definition unpack_categories :: "env \<Rightarrow> cell list \<Rightarrow> label list \<Rightarrow> error + series" where
  "unpack_categories rt series categories =
     (case unpack_loop rt series categories of
        Inl e \<Rightarrow> Inl e
      | Inr col \<Rightarrow> pd_Categorical col categories)"

section \<open>Reading and parsing the ARFF file\<close>

text \<open>
  \<open>_get_arff\<close>: the size guard of an interpreter that is not 64-bit, the choice of the
  decoder's return type from the format, and the decoding of \<open>self.data_file\<close>. The
  source opens a path ending in \<open>.gz\<close> through gzip and any other as UTF-8 text; both
  ways end in the same call of the decoder, whose result for the file is the file's
  content here. A file that is no ARFF file makes the decoder raise. A \<open>data_file\<close> of
  \<open>None\<close> raises TypeError where the path is first used.
\<close>

definition get_arff :: "dataset \<Rightarrow> string \<Rightarrow> world \<Rightarrow> (error + arff_doc) \<times> world" where
  "get_arff s fmt w =
     (case (if bits w \<noteq> 64 then
              (case data_file s of
                 None \<Rightarrow> Inl TypeError
               | Some filename \<Rightarrow>
                   (case fs w filename of
                      None \<Rightarrow> Inl FileNotFoundError
                    | Some c \<Rightarrow>
                        if getsize w filename > 120000000
                        then Inl (NotImplementedError
                               (''File '' @ filename @ '' too big for ''
                                @ show_nat (getsize w filename) @ ''-bit system (''
                                @ show_nat (bits w) @ '' bytes).''))
                        else Inr ()))
            else Inr ()) of
        Inl e \<Rightarrow> (Inl e, w)
      | Inr u \<Rightarrow>
          (case (if lower fmt = ''arff'' then Inr DENSE
                 else if lower fmt = ''sparse_arff'' then Inr COO
                 else Inl (ValueError (''Unknown data format '' @ fmt))) of
             Inl e \<Rightarrow> (Inl e, w)
           | Inr rtype \<Rightarrow>
               (case data_file s of
                  None \<Rightarrow> (Inl TypeError, w)
                | Some filename \<Rightarrow>
                    (case fs w filename of
                       None \<Rightarrow> (Inl FileNotFoundError, w)
                     | Some (ArffFile decode) \<Rightarrow>
                         (decode rtype, w\<lparr>trace := trace w @ [Decode filename rtype]\<rparr>)
                     | Some c \<Rightarrow>
                         (Inl ArffException,
                          w\<lparr>trace := trace w @ [Decode filename rtype]\<rparr>)))))"

text \<open>
  \<open>pd.factorize\<close> on a list of strings: the code of each string is the position of its
  first occurrence among the distinct strings, and nothing is raised, whatever the
  strings are.
\<close>

fun uniques :: "'a list \<Rightarrow> 'a list \<Rightarrow> 'a list" where
  "uniques seen [] = []"
| "uniques seen (x # xs) =
     (if x \<in> set seen then uniques seen xs else x # uniques (x # seen) xs)"

fun index_of :: "'a list \<Rightarrow> 'a \<Rightarrow> nat" where
  "index_of [] y = 0"
| "index_of (x # xs) y = (if x = y then 0 else Suc (index_of xs y))"

definition pd_factorize :: "string list \<Rightarrow> error + nat list \<times> string list" where
  "pd_factorize xs = Inr (map (index_of (uniques [] xs)) xs, uniques [] xs)"

text \<open>The local variables that the attribute loop of \<open>_parse_data_from_arff\<close> fills.\<close>

record attr_state =
  attribute_dtype :: "string \<rightharpoonup> string"
  attribute_names :: "string list"
  categories_names :: "string \<rightharpoonup> label list"
  categorical :: "bool list"

definition ARFF_DTYPES_TO_PD_DTYPE :: "string \<rightharpoonup> string" where
  "ARFF_DTYPES_TO_PD_DTYPE =
     map_of [(''INTEGER'', ''integer''), (''REAL'', ''floating''),
             (''NUMERIC'', ''floating''), (''STRING'', ''string'')]"

text \<open>
  The checks at the head of the loop body, for the sparse format only: a nominal attribute
  goes through \<open>pd.factorize\<close>, whose ValueError would become the ValueError of the
  source, and a string attribute is refused.
\<close>

definition sparse_check :: "string \<Rightarrow> arff_type \<Rightarrow> error + unit" where
  "sparse_check fmt ty =
     (case ty of
        Nominal labels \<Rightarrow>
          (if lower fmt = ''sparse_arff'' then
             (case pd_factorize labels of
                Inl (ValueError m) \<Rightarrow>
                  Inl (ValueError
                    ''Categorical data needs to be numeric when using sparse ARFF.'')
              | Inl e \<Rightarrow> Inl e
              | Inr r \<Rightarrow> Inr ())
           else Inr ())
      | Prim t \<Rightarrow>
          (if t = ''STRING'' \<and> lower fmt = ''sparse_arff'' then
             Inl (ValueError
               ''Dataset containing strings is not supported with sparse ARFF.'')
           else Inr ()))"

text \<open>The dtype inference of the loop body.\<close>

definition infer_dtype :: "attr_state \<Rightarrow> string \<Rightarrow> arff_type \<Rightarrow> error + attr_state" where
  "infer_dtype st nm ty =
     (case ty of
        Nominal labels \<Rightarrow>
          (let st1 = st\<lparr>categorical := categorical st @ [True],
                        categories_names := (categories_names st)(nm \<mapsto> map LStr labels)\<rparr>;
               type_norm = map (\<lambda>cat. capitalize (lower cat)) labels;
               st2 = (if length labels = 2 then
                        (if {''True'', ''False''} = set type_norm then
                           st1\<lparr>categories_names :=
                                  (categories_names st1)
                                    (nm \<mapsto> map (\<lambda>cat. LBool (cat = ''True'')) type_norm),
                                attribute_dtype := (attribute_dtype st1)(nm \<mapsto> ''boolean'')\<rparr>
                         else st1\<lparr>attribute_dtype :=
                                    (attribute_dtype st1)(nm \<mapsto> ''categorical'')\<rparr>)
                      else st1\<lparr>attribute_dtype :=
                                 (attribute_dtype st1)(nm \<mapsto> ''categorical'')\<rparr>)
           in Inr (st2\<lparr>attribute_names := attribute_names st2 @ [nm]\<rparr>))
      | Prim t \<Rightarrow>
          (case ARFF_DTYPES_TO_PD_DTYPE t of
             None \<Rightarrow> Inl (KeyError t)
           | Some d \<Rightarrow>
               Inr (st\<lparr>categorical := categorical st @ [False],
                       attribute_dtype := (attribute_dtype st)(nm \<mapsto> d),
                       attribute_names := attribute_names st @ [nm]\<rparr>)))"

definition attr_step :: "string \<Rightarrow> attr_state \<Rightarrow> string \<times> arff_type \<Rightarrow> error + attr_state" where
  "attr_step fmt st a =
     (case sparse_check fmt (snd a) of
        Inl e \<Rightarrow> Inl e
      | Inr u \<Rightarrow> infer_dtype st (fst a) (snd a))"

fun attr_loop :: "string \<Rightarrow> attr_state \<Rightarrow> (string \<times> arff_type) list \<Rightarrow> error + attr_state" where
  "attr_loop fmt st [] = Inr st"
| "attr_loop fmt st (a # rest) =
     (case attr_step fmt st a of
        Inl e \<Rightarrow> Inl e
      | Inr st' \<Rightarrow> attr_loop fmt st' rest)"

definition attr_init :: attr_state where
  "attr_init = \<lparr>attribute_dtype = Map.empty, attribute_names = [],
                categories_names = Map.empty, categorical = []\<rparr>"

text \<open>
  What \<open>np.float32\<close> makes of a cell: a number stays the number, \<open>None\<close> becomes NaN,
  text is read as a float or raises ValueError (\<open>None\<close> here).
\<close>

definition to_float32 :: "env \<Rightarrow> cell \<Rightarrow> cell option" where
  "to_float32 rt c =
     (case c of
        CInt i \<Rightarrow> Some (CFloat (of_int i))
      | CFloat q \<Rightarrow> Some (CFloat q)
      | CNaN \<Rightarrow> Some CNaN
      | CInf \<Rightarrow> Some CInf
      | CNone \<Rightarrow> Some CNaN
      | CStr t \<Rightarrow> float_of_text rt t)"

text \<open>
  The sparse branch: \<open>max\<close> of an empty coordinate list raises ValueError, the shape is
  the largest row and column index plus one, and \<open>coo_matrix\<close> wants three arrays of one
  length whose values convert to \<open>float32\<close>.
\<close>

definition coo_to_csr :: "env \<Rightarrow> cell list \<Rightarrow> nat list \<Rightarrow> nat list \<Rightarrow> error + table" where
  "coo_to_csr rt vals rows cols =
     (case rows of
        [] \<Rightarrow> Inl (ValueError ''max() arg is an empty sequence'')
      | r # rs \<Rightarrow>
          (case cols of
             [] \<Rightarrow> Inl (ValueError ''max() arg is an empty sequence'')
           | c # cs \<Rightarrow>
               if length vals \<noteq> length rows \<or> length rows \<noteq> length cols
               then Inl (ValueError ''row, column, and data array must all be the same length'')
               else (case those (map (to_float32 rt) vals) of
                       None \<Rightarrow> Inl (ValueError ''could not convert string to float'')
                     | Some vs \<Rightarrow>
                         Inr (CsrMatrix (fold max rs r + 1) (fold max cs c + 1)
                                (zip vs (zip rows cols))))))"

text \<open>
  The dense branch. \<open>pd.DataFrame(data['data'], columns=attribute_names)\<close> gives one
  column per name, holding the cells at that position of every row; the decoder returns
  only rows with one cell per attribute, and a cell that a shorter row lacks is \<open>None\<close>
  here. pandas then infers the type of each column (\<open>infer_objects\<close>): a column that
  holds text, or nothing but \<open>None\<close>, keeps its cells (dtype \<open>object\<close>); a column of
  integers keeps them; in any other column, where a float or \<open>None\<close> stands among the
  numbers, the integers become floats and \<open>None\<close> becomes NaN. The loop then looks
  every column up by its name, in the frame and in the two dictionaries, and unpacks the
  categorical and boolean ones.
\<close>

definition is_text :: "cell \<Rightarrow> bool" where
  "is_text c = (case c of CStr t \<Rightarrow> True | _ \<Rightarrow> False)"

definition is_integer :: "cell \<Rightarrow> bool" where
  "is_integer c = (case c of CInt i \<Rightarrow> True | _ \<Rightarrow> False)"

definition infer_objects :: "cell list \<Rightarrow> cell list" where
  "infer_objects cs =
     (if list_ex is_text cs \<or> list_all (\<lambda>c. c = CNone) cs \<or> list_all is_integer cs then cs
      else map (\<lambda>c. case c of CInt i \<Rightarrow> CFloat (of_int i) | CNone \<Rightarrow> CNaN | _ \<Rightarrow> c) cs)"

definition pd_DataFrame :: "cell list list \<Rightarrow> string list \<Rightarrow> (string \<times> cell list) list" where
  "pd_DataFrame rows names =
     map (\<lambda>(j, nm).
            (nm, infer_objects (map (\<lambda>r. if j < length r then r ! j else CNone) rows)))
       (enumerate 0 names)"

fun unpack_columns ::
  "env \<Rightarrow> attr_state \<Rightarrow> (string \<times> cell list) list \<Rightarrow> string list \<Rightarrow> error + column list" where
  "unpack_columns rt st X [] = Inr []"
| "unpack_columns rt st X (column_name # rest) =
     (case attribute_dtype st column_name of
        None \<Rightarrow> Inl (KeyError column_name)
      | Some d \<Rightarrow>
          (case map_of X column_name of
             None \<Rightarrow> Inl (KeyError column_name)
           | Some cells \<Rightarrow>
               (case (if d = ''categorical'' \<or> d = ''boolean'' then
                        (case categories_names st column_name of
                           None \<Rightarrow> Inl (KeyError column_name)
                         | Some cats \<Rightarrow> unpack_categories rt cells cats)
                      else Inr (Plain cells)) of
                  Inl e \<Rightarrow> Inl e
                | Inr ser \<Rightarrow>
                    map_sum id (Cons (column_name, ser)) (unpack_columns rt st X rest))))"

text \<open>
  \<open>_parse_data_from_arff\<close>. An OSError of the reading is logged and raised again. The
  decoder returns rows for \<open>DENSE\<close> and the coordinate triple for \<open>COO\<close>; the other
  pairing cannot come from it and is a TypeError here.
\<close>

definition parse_data_from_arff ::
  "env \<Rightarrow> dataset \<Rightarrow> string \<Rightarrow> world
     \<Rightarrow> (error + table \<times> bool list \<times> string list) \<times> world" where
  "parse_data_from_arff rt s arff_file_path w =
     (case get_arff s (format s) w of
        (Inl e, w1) \<Rightarrow>
          (Inl e,
           if is_OSError e
           then w1\<lparr>trace := trace w1 @
                  [Log CRITICAL
                     ''Please check that the data file {} is there and can be read.''
                     [arff_file_path]]\<rparr>
           else w1)
      | (Inr doc, w1) \<Rightarrow>
          (case attr_loop (format s) attr_init (doc_attributes doc) of
             Inl e \<Rightarrow> (Inl e, w1)
           | Inr st \<Rightarrow>
               (if lower (format s) = ''sparse_arff'' then
                  (case doc_data doc of
                     COOData vals rows cols \<Rightarrow>
                       (map_sum id (\<lambda>X. (X, categorical st, attribute_names st))
                          (coo_to_csr rt vals rows cols), w1)
                   | DenseData rows \<Rightarrow> (Inl TypeError, w1))
                else if lower (format s) = ''arff'' then
                  (case doc_data doc of
                     DenseData rows \<Rightarrow>
                       (map_sum id
                          (\<lambda>cols. (DataFrame cols, categorical st, attribute_names st))
                          (unpack_columns rt st (pd_DataFrame rows (attribute_names st))
                             (attribute_names st)), w1)
                   | COOData vals rows cols \<Rightarrow> (Inl TypeError, w1))
                else (Inl (ValueError (''Dataset format '' @ [CHR 0x27] @ format s
                             @ [CHR 0x27] @ '' is not a valid format.'')), w1))))"

section \<open>The cache\<close>

text \<open>
  Reading and writing the cache files. \<open>feather.read_feather\<close> needs a feather file;
  \<open>open(path, "rb")\<close> needs the file to exist and \<open>pickle.load\<close> raises EOFError on a
  truncated file. Writing replaces the content at the path; writes do not fail here.
\<close>

definition read_feather :: "world \<Rightarrow> string \<Rightarrow> error + table" where
  "read_feather w path =
     (case fs w path of
        None \<Rightarrow> Inl FileNotFoundError
      | Some (FeatherFile t) \<Rightarrow> Inr t
      | Some c \<Rightarrow> Inl ArrowInvalid)"

definition pickle_load :: "world \<Rightarrow> string \<Rightarrow> error + pickled" where
  "pickle_load w path =
     (case fs w path of
        None \<Rightarrow> Inl FileNotFoundError
      | Some (PickleFile obj) \<Rightarrow> Inr obj
      | Some Truncated \<Rightarrow> Inl EOFError
      | Some c \<Rightarrow> Inl UnpicklingError)"

definition write_feather :: "table \<Rightarrow> string \<Rightarrow> world \<Rightarrow> world" where
  "write_feather X path w =
     w\<lparr>fs := (fs w)(path \<mapsto> FeatherFile X), trace := trace w @ [WriteFeather path]\<rparr>"

definition pickle_dump :: "pickled \<Rightarrow> string \<Rightarrow> world \<Rightarrow> world" where
  "pickle_dump obj path w =
     w\<lparr>fs := (fs w)(path \<mapsto> PickleFile obj), trace := trace w @ [WritePickle path]\<rparr>"

definition logger :: "level \<Rightarrow> string \<Rightarrow> string list \<Rightarrow> world \<Rightarrow> world" where
  "logger lvl msg args w = w\<lparr>trace := trace w @ [Log lvl msg args]\<rparr>"

definition issparse :: "table \<Rightarrow> bool" where
  "issparse t = (case t of CsrMatrix nr nc es \<Rightarrow> True | DataFrame cols \<Rightarrow> False
                 | NdArray cols \<Rightarrow> False)"

definition is_DataFrame :: "table \<Rightarrow> bool" where
  "is_DataFrame t = (case t of DataFrame cols \<Rightarrow> True | CsrMatrix nr nc es \<Rightarrow> False
                     | NdArray cols \<Rightarrow> False)"

text \<open>
  The first half of \<open>_create_pickle_in_cache\<close>, up to the comment "At this point either
  the pickle file does not exist, or it had outdated formatting": what the look at the
  existing cache files ends in. \<open>Return\<close> is one of the statements
  \<open>return data_pickle_file, data_feather_file\<close>, \<open>Raise\<close> an exception that nothing
  catches, \<open>FallThrough\<close> the control reaching the parse below.
\<close>

datatype cache_check = Return | FallThrough | Raise error

definition check_cache :: "dataset \<Rightarrow> string \<Rightarrow> string \<Rightarrow> world \<Rightarrow> cache_check \<times> world" where
  "check_cache s pickle_path feather_path w =
     (if cache_format s = ''feather'' then
        (if fs w feather_path \<noteq> None then
           (case read_feather w feather_path of
              Inl e \<Rightarrow> (Raise e, w)
            | Inr d \<Rightarrow>
                (case pickle_load w pickle_path of
                   Inl e \<Rightarrow> (if e = EOFError then Return else Raise e, w)
                 | Inr (P2 cat names) \<Rightarrow> (FallThrough, w)
                 | Inr (P3 d' cat names) \<Rightarrow>
                     (Raise (ValueError ''too many values to unpack (expected 2)''), w)))
         else (FallThrough, w))
      else
        (if fs w pickle_path \<noteq> None then
           (case pickle_load w pickle_path of
              Inl e \<Rightarrow> (if e = EOFError then Return else Raise e, w)
            | Inr (P2 cat names) \<Rightarrow>
                (Raise (ValueError ''not enough values to unpack (expected 3, got 2)''), w)
            | Inr (P3 d cat names) \<Rightarrow>
                (if is_DataFrame d \<or> issparse d
                 then (Return,
                       logger DEBUG ''Data pickle file already exists and is up to date.'' [] w)
                 else (FallThrough, w)))
         else (FallThrough, w)))"

text \<open>
  \<open>_create_pickle_in_cache\<close>. After a fall-through the ARFF file is parsed and the cache
  written: a feather file and the pickled pair when the cache format is \<open>feather\<close> and the
  table is no \<open>csr_matrix\<close>, otherwise the pickled triple, with \<open>self.cache_format\<close> set
  to \<open>pickle\<close>. \<open>int(self.dataset_id or -1)\<close> is \<open>-1\<close> for \<open>None\<close> and for \<open>0\<close>.
\<close>

definition create_pickle_in_cache ::
  "env \<Rightarrow> dataset \<Rightarrow> string \<Rightarrow> world \<Rightarrow> (error + string \<times> string) \<times> dataset \<times> world" where
  "create_pickle_in_cache rt s arff_path w =
     (let pickle_path = replace_arff ''.pkl.py3'' arff_path;
          feather_path = replace_arff ''.feather'' arff_path
      in case check_cache s pickle_path feather_path w of
           (Return, w1) \<Rightarrow> (Inr (pickle_path, feather_path), s, w1)
         | (Raise e, w1) \<Rightarrow> (Inl e, s, w1)
         | (FallThrough, w1) \<Rightarrow>
             (case parse_data_from_arff rt s arff_path w1 of
                (Inl e, w2) \<Rightarrow> (Inl e, s, w2)
              | (Inr (X, cat, names), w2) \<Rightarrow>
                  (case (if cache_format s = ''feather'' \<and> \<not> issparse X then
                           (s, pickle_dump (P2 cat names) pickle_path
                                 (write_feather X feather_path
                                    (logger INFO ''feather write'' [] w2)))
                         else
                           (s\<lparr>cache_format := ''pickle''\<rparr>,
                            pickle_dump (P3 X cat names) pickle_path
                              (logger INFO ''pickle write'' [] w2))) of
                     (s', w3) \<Rightarrow>
                       (Inr (pickle_path, feather_path), s',
                        logger DEBUG ''Saved dataset {did}: {name} to file {path}''
                          [show_int (case dataset_id s of None \<Rightarrow> - 1
                                     | Some i \<Rightarrow> if i = 0 then - 1 else i),
                           name s, pickle_path] w3))))"

text \<open>
  The head of \<open>_load_data\<close>: without a pickle path the raw file is downloaded if there is
  none and the cache is created; both paths are stored in the object.
\<close>

definition ensure_cache :: "env \<Rightarrow> dataset \<Rightarrow> world \<Rightarrow> (error + unit) \<times> dataset \<times> world" where
  "ensure_cache rt s w =
     (case data_pickle_file s of
        Some p \<Rightarrow> (Inr (), s, w)
      | None \<Rightarrow>
          (case (case data_file s of
                   Some f \<Rightarrow> (Inr f, s, w)
                 | None \<Rightarrow>
                     (case get_dataset_arff rt s w of
                        (Inl e, w1) \<Rightarrow> (Inl e, s, w1)
                      | (Inr f, w1) \<Rightarrow> (Inr f, s\<lparr>data_file := Some f\<rparr>, w1))) of
             (Inl e, s1, w1) \<Rightarrow> (Inl e, s1, w1)
           | (Inr f, s1, w1) \<Rightarrow>
               (case create_pickle_in_cache rt s1 f w1 of
                  (Inl e, s2, w2) \<Rightarrow> (Inl e, s2, w2)
                | (Inr (pp, fp), s2, w2) \<Rightarrow>
                    (Inr (), s2\<lparr>data_pickle_file := Some pp,
                                data_feather_file := Some fp\<rparr>, w2))))"

text \<open>The body of the \<open>try\<close> of \<open>_load_data\<close>. A path of \<open>None\<close> is a TypeError.\<close>

definition read_cache ::
  "dataset \<Rightarrow> world \<Rightarrow> (error + table \<times> bool list \<times> string list) \<times> world" where
  "read_cache s w =
     (if cache_format s = ''feather'' then
        (let w1 = logger INFO ''feather load data'' [] w
         in case data_feather_file s of
              None \<Rightarrow> (Inl TypeError, w1)
            | Some fp \<Rightarrow>
                (case read_feather w1 fp of
                   Inl e \<Rightarrow> (Inl e, w1)
                 | Inr d \<Rightarrow>
                     (case data_pickle_file s of
                        None \<Rightarrow> (Inl TypeError, w1)
                      | Some pp \<Rightarrow>
                          (case pickle_load w1 pp of
                             Inl e \<Rightarrow> (Inl e, w1)
                           | Inr (P2 cat names) \<Rightarrow> (Inr (d, cat, names), w1)
                           | Inr (P3 d' cat names) \<Rightarrow>
                               (Inl (ValueError ''too many values to unpack (expected 2)''),
                                w1)))))
      else
        (let w1 = logger INFO ''pickle load data'' [] w
         in case data_pickle_file s of
              None \<Rightarrow> (Inl TypeError, w1)
            | Some pp \<Rightarrow>
                (case pickle_load w1 pp of
                   Inl e \<Rightarrow> (Inl e, w1)
                 | Inr (P3 d cat names) \<Rightarrow> (Inr (d, cat, names), w1)
                 | Inr (P2 cat names) \<Rightarrow>
                     (Inl (ValueError ''not enough values to unpack (expected 3, got 2)''),
                      w1))))"

text \<open>
  \<open>_load_data\<close>. The handler of EOFError builds its warning with
  \<open>"... %d: '%s' ..." % (self.dataset_id, self.data_pickle_file)\<close> before it parses the
  ARFF file, and \<open>%d\<close> raises TypeError on \<open>None\<close>. The handler of FileNotFoundError
  raises ValueError. The handlers cover the \<open>try\<close> body only.
\<close>

definition path_text :: "string option \<Rightarrow> string" where
  "path_text p = (case p of None \<Rightarrow> ''None'' | Some f \<Rightarrow> f)"

definition load_data ::
  "env \<Rightarrow> dataset \<Rightarrow> world
     \<Rightarrow> (error + table \<times> bool list \<times> string list) \<times> dataset \<times> world" where
  "load_data rt s w =
     (case ensure_cache rt s w of
        (Inl e, s1, w1) \<Rightarrow> (Inl e, s1, w1)
      | (Inr u, s1, w1) \<Rightarrow>
          (case read_cache s1 w1 of
             (Inr r, w2) \<Rightarrow> (Inr r, s1, w2)
           | (Inl e, w2) \<Rightarrow>
               if e = EOFError then
                 (case dataset_id s1 of
                    None \<Rightarrow> (Inl TypeError, s1, w2)
                  | Some did \<Rightarrow>
                      (case parse_data_from_arff rt s1 (path_text (data_file s1))
                              (logger WARNING
                                 ''Detected a corrupt cache file loading dataset %d: '%s'. We will continue loading data from the arff-file, but this will be much slower for big datasets. Please manually delete the cache file if you want openml-python to attempt to reconstruct it.''
                                 [show_int did, path_text (data_pickle_file s1)] w2) of
                         (r, w3) \<Rightarrow> (r, s1, w3)))
               else if e = FileNotFoundError then
                 (Inl (ValueError (''Cannot find a pickle file for dataset '' @ name s1
                         @ '' at location '' @ path_text (data_pickle_file s1) @ '' '')),
                  s1, w2)
               else (Inl e, s1, w2)))"

section \<open>The accessor \<open>get_data\<close>\<close>

text \<open>
  The exclusion list: the row-id attribute unless \<open>include_row_id\<close>, then the ignore
  attributes unless \<open>include_ignore_attribute\<close>; a string is appended, an iterable
  extends the list, any other value adds nothing.
\<close>

definition attr_names :: "attr option \<Rightarrow> string list" where
  "attr_names a =
     (case a of None \<Rightarrow> [] | Some (AStr x) \<Rightarrow> [x] | Some (AList xs) \<Rightarrow> xs
      | Some AOther \<Rightarrow> [])"

definition to_exclude :: "dataset \<Rightarrow> bool \<Rightarrow> bool \<Rightarrow> string list" where
  "to_exclude s include_row_id include_ignore_attribute =
     (if \<not> include_row_id then attr_names (row_id_attribute s) else [])
     @ (if \<not> include_ignore_attribute then attr_names (ignore_attribute s) else [])"

text \<open>
  \<open>[x for x, k in zip(xs, mask) if k]\<close>, and the selection of columns by a boolean
  mask. On a frame (\<open>data.iloc[:, mask]\<close>) and on an array (\<open>data[:, mask]\<close>) a mask of
  another length than the number of columns raises IndexError. A scipy sparse matrix turns
  the mask into the positions of its true entries and takes the columns at these
  positions, renumbered in their order: a position beyond the last column raises
  IndexError, and the length of the mask is otherwise not looked at.
\<close>

definition true_positions :: "bool list \<Rightarrow> nat list" where
  "true_positions msk = filter (\<lambda>j. msk ! j) [0..<length msk]"

definition mask_filter :: "'a list \<Rightarrow> bool list \<Rightarrow> 'a list" where
  "mask_filter xs msk = map fst (filter snd (zip xs msk))"

definition select_columns :: "bool list \<Rightarrow> table \<Rightarrow> error + table" where
  "select_columns msk t =
     (case t of
        DataFrame cols \<Rightarrow>
          if length msk \<noteq> length cols then Inl IndexError
          else Inr (DataFrame (mask_filter cols msk))
      | CsrMatrix nr nc es \<Rightarrow>
          if list_ex (\<lambda>j. nc \<le> j) (true_positions msk) then Inl IndexError
          else Inr (CsrMatrix nr (length (true_positions msk))
                      (map (\<lambda>(v, r, c). (v, r, index_of (true_positions msk) c))
                         (filter (\<lambda>(v, r, c). c \<in> set (true_positions msk)) es)))
      | NdArray cols \<Rightarrow>
          if length msk \<noteq> length cols then Inl IndexError
          else Inr (NdArray (mask_filter cols msk)))"

text \<open>The number of columns of a table.\<close>

definition ncols :: "table \<Rightarrow> nat" where
  "ncols t = (case t of DataFrame cols \<Rightarrow> length cols | CsrMatrix nr nc es \<Rightarrow> nc
              | NdArray cols \<Rightarrow> length cols)"

text \<open>
  What a table holds at a column position, for telling which column went where: the named
  series of a frame, the cells of an array column, and for a sparse matrix the row count
  with the stored entries of that column (value and row, in their stored order).
\<close>

datatype colview =
    FrameColumn column
  | ArrayColumn "cell list"
  | SparseColumn nat "(cell \<times> nat) list"

definition column_at :: "table \<Rightarrow> nat \<Rightarrow> colview" where
  "column_at t j =
     (case t of
        DataFrame cols \<Rightarrow> FrameColumn (cols ! j)
      | NdArray cols \<Rightarrow> ArrayColumn (cols ! j)
      | CsrMatrix nr nc es \<Rightarrow>
          SparseColumn nr (map (\<lambda>(v, r, c). (v, r)) (filter (\<lambda>(v, r, c). c = j) es)))"

text \<open>
  The positions, in increasing order, of the attribute names that are not excluded; and
  the condition under which the data has a column for each of them: a sparse matrix, whose
  width is the largest stored column index plus one, must reach every kept position, a
  frame or an array must have one column per name.
\<close>

definition kept_positions :: "string list \<Rightarrow> string list \<Rightarrow> nat list" where
  "kept_positions excl names = filter (\<lambda>j. names ! j \<notin> set excl) [0..<length names]"

definition has_kept_columns :: "string list \<Rightarrow> string list \<Rightarrow> table \<Rightarrow> bool" where
  "has_kept_columns excl names t =
     (case t of
        CsrMatrix nr nc es \<Rightarrow> list_all (\<lambda>j. j < nc) (kept_positions excl names)
      | DataFrame cols \<Rightarrow> length cols = length names
      | NdArray cols \<Rightarrow> length cols = length names)"

text \<open>Lines 627 to 638 of the source: the removal of the excluded columns.\<close>

definition exclude_columns ::
  "string list \<Rightarrow> table \<times> bool list \<times> string list \<Rightarrow> world
     \<Rightarrow> (error + table \<times> bool list \<times> string list) \<times> world" where
  "exclude_columns excl r w =
     (case r of (d, cat, names) \<Rightarrow>
        if length excl > 0 then
          (let w1 = logger INFO ''Going to remove the following attributes: %s'' excl w;
               keep = map (\<lambda>column. column \<notin> set excl) names
           in case select_columns keep d of
                Inl e \<Rightarrow> (Inl e, w1)
              | Inr d' \<Rightarrow> (Inr (d', mask_filter cat keep, mask_filter names keep), w1))
        else (Inr (d, cat, names), w))"

text \<open>
  \<open>_convert_array_format\<close>. \<open>_encode_if_category\<close> replaces a categorical series by the
  codes of its values (the position of the label in the category list, NaN for a missing
  value); \<open>np.asarray(_, dtype=np.float32)\<close> converts every cell or raises ValueError,
  which the source turns into \<open>PyOpenMLError\<close>. A two-dimensional NumPy array has no
  \<open>columns\<close>. The checks that pandas makes on the shape of a \<open>SparseDataFrame\<close> are not
  modelled. A NumPy scalar goes the way of a one-dimensional array; a plain Python object
  (text, \<open>None\<close>, a label, a float NaN) has no \<open>ndim\<close>, which is an AttributeError.
\<close>

definition encode_if_category :: "series \<Rightarrow> cell list" where
  "encode_if_category column =
     (case column of
        Plain cs \<Rightarrow> cs
      | Categorical vals cats \<Rightarrow>
          map (\<lambda>v. case v of None \<Rightarrow> CNaN
                    | Some l \<Rightarrow> CFloat (of_nat (index_of cats l))) vals)"

definition asarray_float32 :: "env \<Rightarrow> cell list \<Rightarrow> error + cell list" where
  "asarray_float32 rt cs =
     (case those (map (to_float32 rt) cs) of
        None \<Rightarrow> Inl (ValueError ''could not convert string to float'')
      | Some flts \<Rightarrow> Inr flts)"

fun sequence :: "(error + 'a) list \<Rightarrow> error + 'a list" where
  "sequence [] = Inr []"
| "sequence (r # rs) =
     (case r of
        Inl e \<Rightarrow> Inl e
      | Inr x \<Rightarrow> (case sequence rs of Inl e \<Rightarrow> Inl e | Inr xs \<Rightarrow> Inr (x # xs)))"

definition pyvalue_issparse :: "pyvalue \<Rightarrow> bool" where
  "pyvalue_issparse v = (case v of Tab t \<Rightarrow> issparse t | _ \<Rightarrow> False)"

definition string_message :: string where
  "string_message =
     ''PyOpenML cannot handle string when returning numpy arrays. Use dataset_format=''
     @ [CHR 0x22] @ ''dataframe'' @ [CHR 0x22] @ ''.''"

definition convert_array_format ::
  "env \<Rightarrow> pyvalue \<Rightarrow> string \<Rightarrow> string list \<Rightarrow> world \<Rightarrow> (error + returned) \<times> world" where
  "convert_array_format rt d array_format names w =
     (if array_format = ''array'' \<and> \<not> pyvalue_issparse d then
        (case d of
           Tab (DataFrame cols) \<Rightarrow>
             (case sequence (map (\<lambda>c. asarray_float32 rt (encode_if_category (snd c))) cols) of
                Inl e \<Rightarrow> (Inl (PyOpenMLError string_message), w)
              | Inr arr \<Rightarrow> (Inr (Val (Tab (NdArray arr))), w))
         | Tab t \<Rightarrow> (Inl AttributeError, w)
         | Ser ser \<Rightarrow>
             (case asarray_float32 rt (encode_if_category ser) of
                Inl e \<Rightarrow> (Inl (PyOpenMLError string_message), w)
              | Inr arr \<Rightarrow> (Inr (Val (Arr1 arr)), w))
         | Arr1 cs \<Rightarrow>
             (case asarray_float32 rt cs of
                Inl e \<Rightarrow> (Inl (PyOpenMLError string_message), w)
              | Inr arr \<Rightarrow> (Inr (Val (Arr1 arr)), w))
         | Arr0 c \<Rightarrow>
             (case to_float32 rt c of
                None \<Rightarrow> (Inl (PyOpenMLError string_message), w)
              | Some f \<Rightarrow> (Inr (Val (Arr0 f)), w))
         | PyObj c \<Rightarrow> (Inl AttributeError, w)
         | CatValue v \<Rightarrow> (Inl AttributeError, w))
      else if array_format = ''dataframe'' then
        (case d of
           Tab t \<Rightarrow> (if issparse t then (Inr (SparseDataFrame t names), w)
                      else (Inr (Val d), w))
         | _ \<Rightarrow> (Inr (Val d), w))
      else
        (Inr (Val d),
         logger WARNING ''Cannot convert %s (%s) to '%s'. Returning input data.''
           [if pyvalue_issparse d then ''sparse-data'' else ''non-sparse data'',
            (case d of Tab (DataFrame cols) \<Rightarrow> ''DataFrame''
             | Tab (CsrMatrix nr nc es) \<Rightarrow> ''csr_matrix''
             | Tab (NdArray cols) \<Rightarrow> ''ndarray'' | Ser ser \<Rightarrow> ''Series''
             | Arr1 cs \<Rightarrow> ''ndarray'' | Arr0 c \<Rightarrow> ''ndarray''
             | PyObj c \<Rightarrow> ''object'' | CatValue v \<Rightarrow> ''object''),
            array_format] w))"

text \<open>
  \<open>astype(target_dtype)\<close> with \<open>target_dtype\<close> one of \<open>int\<close> and \<open>float\<close>. The
  integer type is \<open>int64\<close>: a float is truncated towards zero; NaN, the infinities and
  the floats whose integer part is outside \<open>int64\<close> become the integer that NumPy gives
  them (\<open>nonfinite_as_int\<close>); a Python integer outside \<open>int64\<close> is an OverflowError;
  text and \<open>None\<close> convert as \<open>int\<close> and \<open>float\<close> do. Rounding of floats to 32 or 64
  bits is not modelled.
\<close>

definition in_int64 :: "int \<Rightarrow> bool" where
  "in_int64 i = (- 9223372036854775808 \<le> i \<and> i < 9223372036854775808)"

datatype dtype = PyInt | PyFloat

definition cast :: "env \<Rightarrow> dtype \<Rightarrow> cell \<Rightarrow> error + cell" where
  "cast rt dt c =
     (case dt of
        PyInt \<Rightarrow>
          (case c of
             CNaN \<Rightarrow> Inr (CInt (nonfinite_as_int rt))
           | CInf \<Rightarrow> Inr (CInt (nonfinite_as_int rt))
           | CFloat q \<Rightarrow>
               (case py_int rt c of
                  Inl e \<Rightarrow> Inl e
                | Inr i \<Rightarrow> Inr (CInt (if in_int64 i then i else nonfinite_as_int rt)))
           | _ \<Rightarrow>
               (case py_int rt c of
                  Inl e \<Rightarrow> Inl e
                | Inr i \<Rightarrow> if in_int64 i then Inr (CInt i) else Inl OverflowError))
      | PyFloat \<Rightarrow>
          (case c of
             CNone \<Rightarrow> Inl TypeError
           | _ \<Rightarrow> (case to_float32 rt c of
                     None \<Rightarrow> Inl (ValueError ''could not convert string to float'')
                   | Some f \<Rightarrow> Inr f)))"

definition astype :: "env \<Rightarrow> dtype \<Rightarrow> cell list \<Rightarrow> error + cell list" where
  "astype rt dt cs = sequence (map (cast rt dt) cs)"

definition astype_table :: "env \<Rightarrow> dtype \<Rightarrow> table \<Rightarrow> error + table" where
  "astype_table rt dt t =
     (case t of
        CsrMatrix nr nc es \<Rightarrow>
          map_sum id (\<lambda>vs. CsrMatrix nr nc (zip vs (map snd es))) (astype rt dt (map fst es))
      | NdArray cols \<Rightarrow> map_sum id NdArray (sequence (map (astype rt dt) cols))
      | DataFrame cols \<Rightarrow>
          map_sum id (\<lambda>cs. DataFrame (zip (map fst cols) (map Plain cs)))
            (sequence (map (\<lambda>c. astype rt dt (encode_if_category (snd c))) cols)))"

definition astype_returned :: "env \<Rightarrow> dtype \<Rightarrow> returned \<Rightarrow> error + returned" where
  "astype_returned rt dt y =
     (case y of
        Val (Arr1 cs) \<Rightarrow> map_sum id (\<lambda>cs'. Val (Arr1 cs')) (astype rt dt cs)
      | Val (Ser ser) \<Rightarrow>
          map_sum id (\<lambda>cs'. Val (Ser (Plain cs'))) (astype rt dt (encode_if_category ser))
      | Val (Tab t) \<Rightarrow> map_sum id (\<lambda>t'. Val (Tab t')) (astype_table rt dt t)
      | Val (Arr0 c) \<Rightarrow> map_sum id (\<lambda>c'. Val (Arr0 c')) (cast rt dt c)
      | Val (PyObj c) \<Rightarrow> Inl AttributeError
      | Val (CatValue v) \<Rightarrow> Inl AttributeError
      | SparseDataFrame t names \<Rightarrow>
          map_sum id (\<lambda>t'. SparseDataFrame t' names) (astype_table rt dt t))"

text \<open>
  The target argument: a string with a comma is split at the commas, any other string is
  the single name, a list is taken as it is.
\<close>

datatype target = TStr string | TList "string list"

definition target_list :: "target \<Rightarrow> string list" where
  "target_list t =
     (case t of
        TStr x \<Rightarrow> (if CHR '','' \<in> set x then split_comma x else [x])
      | TList xs \<Rightarrow> xs)"

text \<open>
  Lines 663 to 668: the split into \<open>x\<close> and \<open>y\<close>; only data without \<open>iloc\<close> (a sparse
  matrix or an array) has its \<open>y\<close> cast here.
\<close>

definition split_xy :: "env \<Rightarrow> dtype \<Rightarrow> bool list \<Rightarrow> table \<Rightarrow> error + table \<times> table" where
  "split_xy rt target_dtype targets d =
     (case select_columns (map Not targets) d of
        Inl e \<Rightarrow> Inl e
      | Inr x \<Rightarrow>
          (case select_columns targets d of
             Inl e \<Rightarrow> Inl e
           | Inr y \<Rightarrow>
               if is_DataFrame d then Inr (x, y)
               else map_sum id (Pair x) (astype_table rt target_dtype y)))"

text \<open>
  Lines 676 to 678: a sparse \<open>y\<close> is made dense, cast and flattened (an entry that is not
  stored is zero; of entries stored twice for one place the first is taken), then
  \<open>squeeze\<close> drops every axis of length one. A frame of one column becomes that column,
  and when it has one row as well, the single value: a NumPy scalar from a numeric column,
  the Python object from an object column, the label or NaN from a categorical column. An
  array of one column becomes one-dimensional, and zero-dimensional with one row.
\<close>

definition todense_flat :: "table \<Rightarrow> cell list" where
  "todense_flat t =
     (case t of
        CsrMatrix nr nc es \<Rightarrow>
          concat (map (\<lambda>i. map (\<lambda>j. case find (\<lambda>(v, r, c). r = i \<and> c = j) es of
                                       None \<Rightarrow> CFloat 0 | Some (v, r, c) \<Rightarrow> v) [0..<nc])
                    [0..<nr])
      | DataFrame cols \<Rightarrow> []
      | NdArray cols \<Rightarrow> [])"

definition squeeze :: "table \<Rightarrow> pyvalue" where
  "squeeze t =
     (case t of
        DataFrame [c] \<Rightarrow>
          (case snd c of
             Plain [x] \<Rightarrow> if x = CNone \<or> is_text x then PyObj x else Arr0 x
           | Categorical [v] cats \<Rightarrow> CatValue v
           | ser \<Rightarrow> Ser ser)
      | NdArray [[x]] \<Rightarrow> Arr0 x
      | NdArray [c] \<Rightarrow> Arr1 c
      | _ \<Rightarrow> Tab t)"

definition densify_y :: "env \<Rightarrow> dtype \<Rightarrow> table \<Rightarrow> error + pyvalue" where
  "densify_y rt target_dtype y =
     (if issparse y then
        map_sum id (\<lambda>cs. case cs of [x] \<Rightarrow> Arr0 x | _ \<Rightarrow> Arr1 cs)
          (astype rt target_dtype (todense_flat y))
      else Inr (squeeze y))"

text \<open>Lines 645 to 681: the branch of \<open>get_data\<close> for a target that is not \<open>None\<close>.\<close>

definition split_target ::
  "env \<Rightarrow> target \<Rightarrow> string \<Rightarrow> table \<times> bool list \<times> string list \<Rightarrow> world
     \<Rightarrow> (error + returned \<times> returned option \<times> bool list \<times> string list) \<times> world" where
  "split_target rt t dataset_format r w =
     (case r of (d, cat, names) \<Rightarrow>
        (let tl = target_list t;
             targets = map (\<lambda>column. column \<in> set tl) names;
             n = length (filter id targets)
         in if n > 1 then
              (Inl (NotImplementedError
                      (''Number of requested targets '' @ show_nat n
                       @ '' is not implemented.'')), w)
            else
              (case map fst (filter (\<lambda>p. snd p \<in> set tl) (zip cat names)) of
                 [] \<Rightarrow> (Inl IndexError, w)
               | tc # others \<Rightarrow>
                   (let target_dtype = (if tc then PyInt else PyFloat)
                    in case split_xy rt target_dtype targets d of
                         Inl e \<Rightarrow> (Inl e, w)
                       | Inr (x, y) \<Rightarrow>
                           (let cat' = mask_filter cat (map Not targets);
                                names' = mask_filter names (map Not targets)
                            in case convert_array_format rt (Tab x) dataset_format names' w of
                                 (Inl e, w1) \<Rightarrow> (Inl e, w1)
                               | (Inr x', w1) \<Rightarrow>
                                   (case densify_y rt target_dtype y of
                                      Inl e \<Rightarrow> (Inl e, w1)
                                    | Inr y1 \<Rightarrow>
                                        (case convert_array_format rt y1 dataset_format
                                                names' w1 of
                                           (Inl e, w2) \<Rightarrow> (Inl e, w2)
                                         | (Inr y2, w2) \<Rightarrow>
                                             (case (if dataset_format = ''array''
                                                    then astype_returned rt target_dtype y2
                                                    else Inr y2) of
                                                Inl e \<Rightarrow> (Inl e, w2)
                                              | Inr y3 \<Rightarrow>
                                                  (Inr (x', Some y3, cat', names'), w2)))))))))"

definition get_data ::
  "env \<Rightarrow> dataset \<Rightarrow> target option \<Rightarrow> bool \<Rightarrow> bool \<Rightarrow> string \<Rightarrow> world
     \<Rightarrow> (error + returned \<times> returned option \<times> bool list \<times> string list)
         \<times> dataset \<times> world" where
  "get_data rt s target include_row_id include_ignore_attribute dataset_format w =
     (case load_data rt s w of
        (Inl e, s1, w1) \<Rightarrow> (Inl e, s1, w1)
      | (Inr r, s1, w1) \<Rightarrow>
          (case exclude_columns (to_exclude s1 include_row_id include_ignore_attribute) r w1 of
             (Inl e, w2) \<Rightarrow> (Inl e, s1, w2)
           | (Inr (d, cat, names), w2) \<Rightarrow>
               (case target of
                  None \<Rightarrow>
                    (case convert_array_format rt (Tab d) dataset_format names w2 of
                       (Inl e, w3) \<Rightarrow> (Inl e, s1, w3)
                     | (Inr X, w3) \<Rightarrow> (Inr (X, None, cat, names), s1, w3))
                | Some t \<Rightarrow>
                    (case split_target rt t dataset_format (d, cat, names) w2 of
                       (res, w3) \<Rightarrow> (res, s1, w3)))))"

section \<open>Example inputs\<close>

text \<open>
  A runtime in which no text is a number and the download fails, for the examples below.
\<close>

definition ex_env :: env where
  "ex_env = \<lparr>int_of_text = (\<lambda>t. None), float_of_text = (\<lambda>t. None),
             nonfinite_as_int = - 9223372036854775808,
             get_dataset_arff = (\<lambda>s w. (Inl OSError, w))\<rparr>"

text \<open>
  A dense ARFF file \<open>d.arff\<close> of one row, with an integer attribute and a nominal
  attribute of the labels \<open>True\<close> and \<open>False\<close>; the table that parsing it gives; a world
  that holds the file, a feather file of that table and a metadata file of the given
  content; and the dataset object, of the given id, as its constructor leaves it.
\<close>

definition ex_doc :: arff_doc where
  "ex_doc = \<lparr>doc_attributes = [(''id'', Prim ''INTEGER''),
                               (''flag'', Nominal [''True'', ''False''])],
             doc_data = DenseData [[CInt 7, CInt 0]]\<rparr>"

definition ex_frame :: table where
  "ex_frame = DataFrame [(''id'', Plain [CInt 7]),
                         (''flag'', Categorical [Some (LBool True)] [LBool True, LBool False])]"

definition ex_world :: "content \<Rightarrow> world" where
  "ex_world meta =
     \<lparr>fs = [''d.arff'' \<mapsto> ArffFile (\<lambda>r. Inr ex_doc),
             ''d.feather'' \<mapsto> FeatherFile ex_frame,
             ''d.pkl.py3'' \<mapsto> meta],
      bits = 64, getsize = (\<lambda>p. 0), trace = []\<rparr>"

definition ex_dataset :: "int option \<Rightarrow> dataset" where
  "ex_dataset did =
     \<lparr>dataset_id = did, name = ''toy'', format = ''arff'', cache_format = ''feather'',
      data_file = Some ''d.arff'', data_pickle_file = Some ''d.pkl.py3'',
      data_feather_file = Some ''d.feather'', row_id_attribute = None,
      ignore_attribute = None\<rparr>"

text \<open>
  A sparse ARFF file \<open>s.arff\<close> with one nominal attribute whose labels are no numbers
  and one stored value, in a world without cache files, and its dataset object.
\<close>

definition ex_sparse_doc :: arff_doc where
  "ex_sparse_doc = \<lparr>doc_attributes = [(''c'', Nominal [''a'', ''b''])],
                    doc_data = COOData [CInt 1] [0] [0]\<rparr>"

definition ex_sparse_world :: world where
  "ex_sparse_world =
     \<lparr>fs = [''s.arff'' \<mapsto> ArffFile (\<lambda>r. Inr ex_sparse_doc)],
      bits = 64, getsize = (\<lambda>p. 0), trace = []\<rparr>"

definition ex_sparse_dataset :: dataset where
  "ex_sparse_dataset =
     \<lparr>dataset_id = Some 395, name = ''toy-sparse'', format = ''sparse_arff'',
      cache_format = ''feather'', data_file = Some ''s.arff'', data_pickle_file = None,
      data_feather_file = None, row_id_attribute = None, ignore_attribute = None\<rparr>"

text \<open>
  A dataset with the row-id attribute \<open>id\<close> and the ignore attribute \<open>foo\<close>, whose
  pickle cache holds a frame of the columns \<open>id\<close>, \<open>foo\<close>, \<open>a\<close>, \<open>b\<close> and the
  categorical \<open>c\<close>.
\<close>

definition ex_acc_cols :: "column list" where
  "ex_acc_cols =
     [(''id'', Plain [CInt 1, CInt 2]), (''foo'', Plain [CInt 9, CInt 9]),
      (''a'', Plain [CFloat (1 / 2), CFloat 2]), (''b'', Plain [CInt 3, CInt 4]),
      (''c'', Categorical [Some (LStr ''x''), Some (LStr ''z'')]
                [LStr ''x'', LStr ''y'', LStr ''z''])]"

definition ex_acc_world :: world where
  "ex_acc_world =
     \<lparr>fs = [''t.pkl.py3'' \<mapsto>
               PickleFile (P3 (DataFrame ex_acc_cols) [False, False, False, False, True]
                              [''id'', ''foo'', ''a'', ''b'', ''c''])],
      bits = 64, getsize = (\<lambda>p. 0), trace = []\<rparr>"

definition ex_acc_dataset :: dataset where
  "ex_acc_dataset =
     \<lparr>dataset_id = Some 7, name = ''acc'', format = ''arff'', cache_format = ''pickle'',
      data_file = Some ''t.arff'', data_pickle_file = Some ''t.pkl.py3'',
      data_feather_file = Some ''t.feather'', row_id_attribute = Some (AStr ''id''),
      ignore_attribute = Some (AList [''foo''])\<rparr>"

lemmas acc_defs = ex_acc_cols_def ex_acc_world_def ex_acc_dataset_def

lemmas str_defs = lower_def lower_char_def upper_char_def replace_arff.simps show_nat.simps

lemmas parse_defs = parse_data_from_arff_def get_arff_def attr_step_def sparse_check_def
  infer_dtype_def attr_init_def pd_DataFrame_def infer_objects_def is_text_def
  is_integer_def unpack_categories_def pd_Categorical_def
  py_index_def ARFF_DTYPES_TO_PD_DTYPE_def coo_to_csr_def to_float32_def pd_factorize_def
  is_OSError_def

lemmas cache_defs = create_pickle_in_cache_def check_cache_def read_feather_def
  pickle_load_def write_feather_def pickle_dump_def logger_def issparse_def is_DataFrame_def
  ensure_cache_def read_cache_def load_data_def path_text_def show_int_def

lemmas ex_defs = ex_env_def ex_doc_def ex_frame_def ex_world_def ex_dataset_def
  ex_sparse_doc_def ex_sparse_world_def ex_sparse_dataset_def

section \<open>Properties of the category unpacker\<close>


text \<open>
  An entry whose integer is no valid index of the category list makes the loop raise:
  IndexError is not among the exceptions that the loop catches.
\<close>

lemma unpack_loop_out_of_range:
  assumes "x \<in> set xs" and "py_int rt x = Inr i"
      and "i < - int (length categories) \<or> int (length categories) \<le> i"
  shows "\<exists>e. unpack_loop rt xs categories = Inl e"
  using assms
proof (induction xs)
  case Nil
  then show ?case by simp
next
  case (Cons a xs)
  show ?case
  proof (cases "a = x")
    case True
    then show ?thesis using Cons.prems by (auto simp: py_index_def Let_def)
  next
    case False
    then have "\<exists>e. unpack_loop rt xs categories = Inl e" using Cons by auto
    then show ?thesis by (auto split: sum.splits error.splits)
  qed
qed




section \<open>Properties of the type inference\<close>

lemma sparse_check_nominal: "sparse_check fmt (Nominal labels) = Inr ()"
  by (simp add: sparse_check_def pd_factorize_def)

text \<open>
  C4, as the source has it. A column declared with exactly two labels that, after
  \<open>lower().capitalize()\<close>, form the set of \<open>True\<close> and \<open>False\<close> gets the dtype
  \<open>boolean\<close> (and the categorical flag), and its label list is the declared one mapped
  position by position: the first label is \<open>True\<close> exactly when the first declared
  label normalises to \<open>True\<close>. So the list is \<open>[False, True]\<close> exactly when the
  declaration puts the false label first, and \<open>[True, False]\<close> otherwise.
\<close>

theorem boolean_collapse_positional:
  assumes "set [capitalize (lower l1), capitalize (lower l2)] = {''True'', ''False''}"
  shows "\<exists>st'. attr_step fmt st (nm, Nominal [l1, l2]) = Inr st'
           \<and> attribute_dtype st' nm = Some ''boolean''
           \<and> categories_names st' nm
               = Some [LBool (capitalize (lower l1) = ''True''),
                       LBool (capitalize (lower l2) = ''True'')]
           \<and> categorical st' = categorical st @ [True]
           \<and> attribute_names st' = attribute_names st @ [nm]
           \<and> (categories_names st' nm = Some [LBool False, LBool True]
                \<longleftrightarrow> capitalize (lower l1) = ''False'')"
proof -
  have eq: "{''True'', ''False''} = set [capitalize (lower l1), capitalize (lower l2)]"
    using assms by simp
  have "capitalize (lower l1) = ''False'' \<longleftrightarrow> capitalize (lower l2) = ''True''"
    using assms by (auto simp: doubleton_eq_iff)
  moreover have "capitalize (lower l1) = ''False'' \<longleftrightarrow> capitalize (lower l1) \<noteq> ''True''"
    using assms by (auto simp: doubleton_eq_iff)
  ultimately show ?thesis
    using eq by (simp add: attr_step_def sparse_check_nominal infer_dtype_def Let_def)
qed

theorem boolean_collapse_positional_witness:
  "\<exists>st'. attr_step ''arff'' attr_init (''flag'', Nominal [''FALSE'', ''true'']) = Inr st'
           \<and> attribute_dtype st' ''flag'' = Some ''boolean''
           \<and> categories_names st' ''flag'' = Some [LBool False, LBool True]"
proof -
  have h: "set [capitalize (lower ''FALSE''), capitalize (lower ''true'')]
             = {''True'', ''False''}"
    by (auto simp: str_defs)
  have c: "capitalize (lower ''FALSE'') = ''False''"
    by (simp add: str_defs)
  from boolean_collapse_positional [OF h, of "''arff''" attr_init "''flag''"] c
  show ?thesis by auto
qed

text \<open>
  C4 as stated fails for the declaration \<open>{True, False}\<close>: the column is boolean, but
  its label list is \<open>[True, False]\<close>, with \<open>True\<close> before \<open>False\<close>.
\<close>

theorem boolean_true_first_label_order:
  "map_sum id (\<lambda>st. (attribute_dtype st ''flag'', categories_names st ''flag''))
     (attr_step ''arff'' attr_init (''flag'', Nominal [''True'', ''False'']))
   = Inr (Some ''boolean'', Some [LBool True, LBool False])"
  by (simp add: attr_step_def sparse_check_def infer_dtype_def attr_init_def Let_def str_defs)

text \<open>
  C6: the source means to refuse a nominal attribute with labels that are no numbers
  when the format is sparse, but \<open>pd.factorize\<close> raises nothing on a list of strings, so
  the check never fires (\<open>sparse_check_nominal\<close>). Parsing the sparse file \<open>s.arff\<close>,
  whose nominal attribute has the labels \<open>a\<close> and \<open>b\<close>, succeeds and returns the matrix.
\<close>

theorem sparse_nonnumeric_nominal_is_parsed:
  "fst (parse_data_from_arff ex_env ex_sparse_dataset ''s.arff'' ex_sparse_world)
   = Inr (CsrMatrix 1 1 [(CFloat 1, 0, 0)], [True], [''c''])"
  by (simp add: parse_defs str_defs ex_defs Let_def)

section \<open>Properties of parsing and of the cache\<close>

lemma map_sum_eq_Inr: "map_sum f g x = Inr y \<longleftrightarrow> (\<exists>z. x = Inr z \<and> y = g z)"
  by (cases x) auto

lemma map_sum_eq_Inl: "map_sum f g x = Inl y \<longleftrightarrow> (\<exists>z. x = Inl z \<and> y = f z)"
  by (cases x) auto

text \<open>Reading and parsing the ARFF file changes no file and does not depend on the trace.\<close>

lemma get_arff_fs: "fs (snd (get_arff s fmt w)) = fs w"
  by (simp add: get_arff_def split: option.splits content.splits sum.splits)

lemma get_arff_trace_indep: "fst (get_arff s fmt (w\<lparr>trace := t\<rparr>)) = fst (get_arff s fmt w)"
  by (simp add: get_arff_def split: option.splits content.splits sum.splits)

lemma parse_fs: "fs (snd (parse_data_from_arff rt s p w)) = fs w"
proof -
  obtain r w1 where g: "get_arff s (format s) w = (r, w1)"
    by (cases "get_arff s (format s) w")
  then have "fs w1 = fs w"
    using get_arff_fs [of s "format s" w] by simp
  then show ?thesis
    using g by (simp add: parse_data_from_arff_def split: sum.splits arff_data.splits)
qed

lemma parse_trace_indep:
  "fst (parse_data_from_arff rt s p (w\<lparr>trace := t\<rparr>)) = fst (parse_data_from_arff rt s p w)"
proof -
  obtain r w1 where g: "get_arff s (format s) w = (r, w1)"
    by (cases "get_arff s (format s) w")
  obtain r' w1' where g': "get_arff s (format s) (w\<lparr>trace := t\<rparr>) = (r', w1')"
    by (cases "get_arff s (format s) (w\<lparr>trace := t\<rparr>)")
  have "r' = r"
    using g g' get_arff_trace_indep [where s = s and fmt = "format s" and w = w and t = t]
    by simp
  then show ?thesis
    using g g' by (simp add: parse_data_from_arff_def split: sum.splits arff_data.splits)
qed

text \<open>The parse returns a sparse matrix for the sparse format and a frame for the dense
  one.\<close>

lemma parse_result_kind:
  assumes "fst (parse_data_from_arff rt s p w) = Inr (X, cat, names)"
  shows "(lower (format s) = ''sparse_arff'' \<and> issparse X)
         \<or> (lower (format s) = ''arff'' \<and> is_DataFrame X)"
proof -
  obtain r w1 where g: "get_arff s (format s) w = (r, w1)"
    by (cases "get_arff s (format s) w")
  show ?thesis
    using assms g
    by (auto simp: parse_data_from_arff_def coo_to_csr_def issparse_def is_DataFrame_def
                   map_sum_eq_Inr
             split: sum.splits arff_data.splits if_splits list.splits option.splits)
qed

lemma read_cache_fs: "fs (snd (read_cache s w)) = fs w"
  by (simp add: read_cache_def logger_def Let_def
           split: option.splits sum.splits pickled.splits)

text \<open>
  C1: with the cache format \<open>feather\<close>, an existing feather file and a metadata file
  that \<open>pickle.load\<close> reads, \<open>_create_pickle_in_cache\<close> does not return: it falls through
  to the parse, calls the decoder on the raw file and writes both cache files again.
\<close>

theorem create_pickle_reparses_valid_cache:
  "trace (snd (snd (create_pickle_in_cache ex_env (ex_dataset (Some 61)) ''d.arff''
              (ex_world (PickleFile (P2 [False, True] [''id'', ''flag''])))))) =
     [Decode ''d.arff'' DENSE, Log INFO ''feather write'' [], WriteFeather ''d.feather'',
      WritePickle ''d.pkl.py3'',
      Log DEBUG ''Saved dataset {did}: {name} to file {path}''
        [''61'', ''toy'', ''d.pkl.py3'']]"
  by (simp add: cache_defs parse_defs str_defs ex_defs Let_def)

text \<open>
  C2: for a dataset without an id (\<open>dataset_id\<close> is \<open>None\<close>, as for a dataset made
  locally) whose metadata file is truncated, \<open>_load_data\<close> raises the TypeError of the
  \<open>%d\<close> in its warning and does not fall back to the raw file.
\<close>

theorem load_data_corrupt_cache_without_id:
  "fst (load_data ex_env (ex_dataset None) (ex_world Truncated)) = Inl TypeError"
  by (simp add: cache_defs ex_defs)

text \<open>
  What holds of C1 and C2. With the cache format \<open>feather\<close>, an existing feather file
  and a truncated metadata file, \<open>_create_pickle_in_cache\<close> returns the two paths and
  leaves the object and the world as they are. And for a dataset that has an id, an
  EOFError of the cache read makes \<open>_load_data\<close> log a warning and return what parsing
  the raw file returns, with every file left as it is.
\<close>

lemma check_cache_feather_eof:
  assumes "cache_format s = ''feather''" and "fs w fth = Some (FeatherFile t)"
      and "fs w pkl = Some Truncated"
  shows "check_cache s pkl fth w = (Return, w)"
  using assms by (simp add: check_cache_def read_feather_def pickle_load_def)

lemma check_cache_feather_valid:
  assumes "cache_format s = ''feather''" and "fs w fth = Some (FeatherFile t)"
      and "fs w pkl = Some (PickleFile (P2 cat names))"
  shows "check_cache s pkl fth w = (FallThrough, w)"
  using assms by (simp add: check_cache_def read_feather_def pickle_load_def)

lemma check_cache_FallThrough_world:
  "check_cache s pkl fth w = (FallThrough, w1) \<Longrightarrow> w1 = w"
  by (auto simp: check_cache_def split: if_splits sum.splits pickled.splits)

lemma create_pickle_eof_defers:
  assumes "cache_format s = ''feather''"
      and "fs w (replace_arff ''.feather'' p) = Some (FeatherFile t)"
      and "fs w (replace_arff ''.pkl.py3'' p) = Some Truncated"
  shows "create_pickle_in_cache rt s p w
         = (Inr (replace_arff ''.pkl.py3'' p, replace_arff ''.feather'' p), s, w)"
  using assms by (simp add: create_pickle_in_cache_def check_cache_feather_eof Let_def)

lemma read_cache_world:
  "snd (read_cache s w) =
     w\<lparr>trace := trace w @ [Log INFO (if cache_format s = ''feather'' then ''feather load data''
                                     else ''pickle load data'') []]\<rparr>"
  by (simp add: read_cache_def logger_def Let_def
           split: option.splits sum.splits pickled.splits)

lemma parse_world_trace:
  "\<exists>t. snd (parse_data_from_arff rt s p w) = w\<lparr>trace := trace w @ t\<rparr>"
proof -
  have g: "\<exists>t. snd (get_arff s (format s) w) = w\<lparr>trace := trace w @ t\<rparr>"
    by (auto simp: get_arff_def split: option.splits content.splits sum.splits
             intro: exI [of _ "[]"])
  obtain r w1 where gw: "get_arff s (format s) w = (r, w1)"
    by (cases "get_arff s (format s) w")
  with g obtain t where "w1 = w\<lparr>trace := trace w @ t\<rparr>" by auto
  then show ?thesis
    using gw by (auto simp: parse_data_from_arff_def split: sum.splits arff_data.splits)
qed

lemma load_data_eof_fallback:
  assumes "data_pickle_file s = Some pp" and "dataset_id s = Some did"
      and "fst (read_cache s w) = Inl EOFError"
  shows "\<exists>w'. load_data rt s w
                = (fst (parse_data_from_arff rt s (path_text (data_file s)) w), s, w')
              \<and> fs w' = fs w
              \<and> (\<exists>msg args. Log WARNING msg args \<in> set (trace w'))"
proof -
  let ?t = "trace w @ [Log INFO (if cache_format s = ''feather'' then ''feather load data''
                                     else ''pickle load data'') []]"
  have rc: "read_cache s w = (Inl EOFError, w\<lparr>trace := ?t\<rparr>)"
    using assms(3) read_cache_world [of s w] by (simp add: prod_eq_iff)
  obtain msg args where
    ld: "load_data rt s w =
           (case parse_data_from_arff rt s (path_text (data_file s))
                   (w\<lparr>trace := ?t @ [Log WARNING msg args]\<rparr>) of (r, w3) \<Rightarrow> (r, s, w3))"
    using assms(1,2) rc by (simp add: load_data_def ensure_cache_def logger_def)
  let ?w2 = "w\<lparr>trace := ?t @ [Log WARNING msg args]\<rparr>"
  obtain t where w3: "snd (parse_data_from_arff rt s (path_text (data_file s)) ?w2)
                        = ?w2\<lparr>trace := trace ?w2 @ t\<rparr>"
    using parse_world_trace [of rt s "path_text (data_file s)" ?w2] by blast
  have r: "fst (parse_data_from_arff rt s (path_text (data_file s)) ?w2)
             = fst (parse_data_from_arff rt s (path_text (data_file s)) w)"
    by (rule parse_trace_indep)
  show ?thesis
    using ld w3 r by (auto simp: case_prod_beta)
qed

text \<open>
  C5. When the look at the existing cache falls through to the build and the parse
  returns a table: if the table is sparse, \<open>_create_pickle_in_cache\<close> sets the cache
  format of the object to \<open>pickle\<close>, whatever it was, and the only file it writes is the
  pickle file, which holds the triple of table, categorical flags and attribute names;
  and if the build writes a feather file at all, the table is not sparse (and the cache
  format was \<open>feather\<close>).
\<close>

theorem sparse_forces_pickle_cache:
  assumes "fst (check_cache s (replace_arff ''.pkl.py3'' p) (replace_arff ''.feather'' p) w)
             = FallThrough"
      and "parse_data_from_arff rt s p w = (Inr (X, cat, names), w2)"
  shows "(issparse X \<longrightarrow>
            (\<exists>w'. create_pickle_in_cache rt s p w
                    = (Inr (replace_arff ''.pkl.py3'' p, replace_arff ''.feather'' p),
                       s\<lparr>cache_format := ''pickle''\<rparr>, w')
                 \<and> fs w' = (fs w)(replace_arff ''.pkl.py3'' p \<mapsto> PickleFile (P3 X cat names))
                 \<and> (\<exists>args. trace w' = trace w2 @
                       [Log INFO ''pickle write'' [], WritePickle (replace_arff ''.pkl.py3'' p),
                        Log DEBUG ''Saved dataset {did}: {name} to file {path}'' args])))
       \<and> ((\<exists>q. WriteFeather q \<in> set (trace (snd (snd (create_pickle_in_cache rt s p w))))
               \<and> WriteFeather q \<notin> set (trace w2))
            \<longrightarrow> \<not> issparse X \<and> cache_format s = ''feather'')"
proof -
  obtain c w1 where c: "check_cache s (replace_arff ''.pkl.py3'' p) (replace_arff ''.feather'' p) w = (c, w1)"
    by (cases "check_cache s (replace_arff ''.pkl.py3'' p) (replace_arff ''.feather'' p) w")
  with assms(1) have "c = FallThrough" by simp
  with c have w1: "w1 = w" by (simp add: check_cache_FallThrough_world)
  have fsw2: "fs w2 = fs w" using parse_fs [of rt s p w] assms(2) by simp
  show ?thesis
    using c \<open>c = FallThrough\<close> w1 assms(2) fsw2
    by (auto simp: create_pickle_in_cache_def Let_def pickle_dump_def write_feather_def logger_def)
qed

text \<open>The sparse file \<open>s.arff\<close>, with the cache format \<open>feather\<close> asked for.\<close>

theorem sparse_forces_pickle_cache_witness:
  "\<exists>w'. create_pickle_in_cache ex_env ex_sparse_dataset ''s.arff'' ex_sparse_world
           = (Inr (''s.pkl.py3'', ''s.feather''), ex_sparse_dataset\<lparr>cache_format := ''pickle''\<rparr>, w')
        \<and> fs w' = (fs ex_sparse_world)
                     (''s.pkl.py3'' \<mapsto> PickleFile (P3 (CsrMatrix 1 1 [(CFloat 1, 0, 0)]) [True] [''c'']))"
proof -
  have h1: "fst (check_cache ex_sparse_dataset (replace_arff ''.pkl.py3'' ''s.arff'')
                   (replace_arff ''.feather'' ''s.arff'') ex_sparse_world) = FallThrough"
    by (simp add: check_cache_def ex_defs str_defs)
  have h2: "parse_data_from_arff ex_env ex_sparse_dataset ''s.arff'' ex_sparse_world
              = (Inr (CsrMatrix 1 1 [(CFloat 1, 0, 0)], [True], [''c'']),
                 ex_sparse_world\<lparr>trace := [Decode ''s.arff'' COO]\<rparr>)"
    by (simp add: parse_defs str_defs ex_defs Let_def)
  have sp: "issparse (CsrMatrix 1 1 [(CFloat 1, 0, 0)])"
    by (simp add: issparse_def)
  have r1: "replace_arff ''.pkl.py3'' ''s.arff'' = ''s.pkl.py3''"
    by (simp add: str_defs)
  have r2: "replace_arff ''.feather'' ''s.arff'' = ''s.feather''"
    by (simp add: str_defs)
  from sparse_forces_pickle_cache [OF h1 h2] sp
  show ?thesis unfolding r1 r2 by blast
qed


section \<open>Properties of \<open>get_data\<close>\<close>

text \<open>Loading changes neither the row-id attribute nor the ignore attributes.\<close>

lemma create_pickle_attrs:
  assumes "create_pickle_in_cache rt s p w = (r, s', w')"
  shows "row_id_attribute s' = row_id_attribute s \<and> ignore_attribute s' = ignore_attribute s"
  using assms
  by (auto simp: create_pickle_in_cache_def Let_def
           split: prod.splits cache_check.splits sum.splits if_splits)

lemma ensure_cache_attrs:
  assumes "ensure_cache rt s w = (r, s', w')"
  shows "row_id_attribute s' = row_id_attribute s \<and> ignore_attribute s' = ignore_attribute s"
proof (cases "data_pickle_file s")
  case (Some a)
  then show ?thesis using assms by (simp add: ensure_cache_def)
next
  case None
  show ?thesis
  proof (cases "data_file s")
    case (Some f)
    obtain r2 s2 w2 where c: "create_pickle_in_cache rt s f w = (r2, s2, w2)"
      by (cases "create_pickle_in_cache rt s f w") auto
    from create_pickle_attrs [OF c] show ?thesis
      using assms None Some c by (auto simp: ensure_cache_def split: sum.splits)
  next
    case N2: None
    obtain r1 w1 where g: "get_dataset_arff rt s w = (r1, w1)"
      by (cases "get_dataset_arff rt s w")
    show ?thesis
    proof (cases r1)
      case (Inl e)
      then show ?thesis using assms None N2 g by (simp add: ensure_cache_def)
    next
      case (Inr f)
      obtain r2 s2 w2 where c: "create_pickle_in_cache rt (s\<lparr>data_file := Some f\<rparr>) f w1 = (r2, s2, w2)"
        by (cases "create_pickle_in_cache rt (s\<lparr>data_file := Some f\<rparr>) f w1") auto
      from create_pickle_attrs [OF c] show ?thesis
        using assms None N2 g Inr c by (auto simp: ensure_cache_def split: sum.splits)
    qed
  qed
qed

lemma load_data_attrs:
  assumes "load_data rt s w = (r, s', w')"
  shows "row_id_attribute s' = row_id_attribute s \<and> ignore_attribute s' = ignore_attribute s"
proof -
  obtain r1 s1 w1 where e: "ensure_cache rt s w = (r1, s1, w1)"
    by (cases "ensure_cache rt s w") auto
  from ensure_cache_attrs [OF e] show ?thesis
    using assms e
    by (auto simp: load_data_def split: sum.splits prod.splits if_splits option.splits)
qed

lemma load_data_to_exclude:
  assumes "load_data rt s w = (r, s', w')"
  shows "to_exclude s' a b = to_exclude s a b"
  using load_data_attrs [OF assms] by (simp add: to_exclude_def)

text \<open>Selections by a mask that comes from a test on the names.\<close>

lemma mask_filter_map_pred:
  "length xs = length ys \<Longrightarrow>
     mask_filter xs (map P ys) = map fst (filter (\<lambda>p. P (snd p)) (zip xs ys))"
  by (induction xs ys rule: list_induct2) (auto simp: mask_filter_def)

lemma mask_filter_self: "mask_filter ys (map P ys) = filter P ys"
  by (induction ys) (auto simp: mask_filter_def)

lemma zip_mask_filter:
  "length xs = length ys \<Longrightarrow>
     zip (mask_filter xs (map P ys)) (mask_filter ys (map P ys))
       = filter (\<lambda>p. P (snd p)) (zip xs ys)"
  by (induction xs ys rule: list_induct2) (auto simp: mask_filter_def)

lemma count_mask: "length (filter id (map P xs)) = length (filter P xs)"
  by (induction xs) auto

lemma ex_acc_load:
  "load_data ex_env ex_acc_dataset ex_acc_world
     = (Inr (DataFrame ex_acc_cols, [False, False, False, False, True],
             [''id'', ''foo'', ''a'', ''b'', ''c'']),
        ex_acc_dataset,
        ex_acc_world\<lparr>trace := [Log INFO ''pickle load data'' []]\<rparr>)"
  by (simp add: load_data_def ensure_cache_def read_cache_def pickle_load_def logger_def
                ex_acc_world_def ex_acc_dataset_def)

text \<open>
  C8. When the target names (a list, a single name, or names joined by commas) match
  more than one of the columns that remain after the exclusion, \<open>get_data\<close> raises
  NotImplementedError, with the number of matched columns in its message, whatever the
  output format.
\<close>

theorem get_data_multi_target_not_implemented:
  assumes "load_data rt s w = (Inr r, s1, w1)"
      and "exclude_columns (to_exclude s include_row_id include_ignore_attribute) r w1
             = (Inr (d, cat, names), w2)"
      and "1 < length (filter (\<lambda>column. column \<in> set (target_list t)) names)"
  shows "get_data rt s (Some t) include_row_id include_ignore_attribute dataset_format w
         = (Inl (NotImplementedError
                   (''Number of requested targets ''
                    @ show_nat (length (filter (\<lambda>column. column \<in> set (target_list t)) names))
                    @ '' is not implemented.'')), s1, w2)"
  using assms load_data_to_exclude [OF assms(1)]
  by (simp add: get_data_def split_target_def Let_def count_mask)

theorem get_data_multi_target_not_implemented_witness:
  "fst (get_data ex_env ex_acc_dataset (Some (TStr ''a,b'')) False False ''dataframe''
          ex_acc_world)
   = Inl (NotImplementedError ''Number of requested targets 2 is not implemented.'')"
proof -
  have ex: "exclude_columns (to_exclude ex_acc_dataset False False)
              (DataFrame ex_acc_cols, [False, False, False, False, True],
               [''id'', ''foo'', ''a'', ''b'', ''c''])
              (ex_acc_world\<lparr>trace := [Log INFO ''pickle load data'' []]\<rparr>)
            = (Inr (DataFrame (drop 2 ex_acc_cols), [False, False, True], [''a'', ''b'', ''c'']),
               snd (exclude_columns (to_exclude ex_acc_dataset False False)
              (DataFrame ex_acc_cols, [False, False, False, False, True],
               [''id'', ''foo'', ''a'', ''b'', ''c''])
              (ex_acc_world\<lparr>trace := [Log INFO ''pickle load data'' []]\<rparr>)))"
    by (simp add: exclude_columns_def to_exclude_def attr_names_def select_columns_def
                  mask_filter_def Let_def acc_defs)
  have tl: "target_list (TStr ''a,b'') = [''a'', ''b'']"
    by (simp add: target_list_def)
  have n: "1 < length (filter (\<lambda>column. column \<in> set (target_list (TStr ''a,b'')))
                         [''a'', ''b'', ''c''])"
    unfolding tl by simp
  have sn: "show_nat (Suc (Suc 0)) = ''2''" by (simp add: show_nat.simps)
  from get_data_multi_target_not_implemented [OF ex_acc_load ex n, of "''dataframe''"] sn
  show ?thesis unfolding tl by simp
qed

text \<open>
  C10. When a target is given and none of the columns that remain after the exclusion
  bears one of its names, \<open>get_data\<close> raises IndexError (from
  \<open>target_categorical[0]\<close> on the empty list), whatever the output format.
\<close>

theorem get_data_unmatched_target_index_error:
  assumes "load_data rt s w = (Inr r, s1, w1)"
      and "exclude_columns (to_exclude s include_row_id include_ignore_attribute) r w1
             = (Inr (d, cat, names), w2)"
      and "\<forall>column\<in>set names. column \<notin> set (target_list t)"
  shows "get_data rt s (Some t) include_row_id include_ignore_attribute dataset_format w
         = (Inl IndexError, s1, w2)"
proof -
  have f1: "filter (\<lambda>column. column \<in> set (target_list t)) names = []"
    using assms(3) by (simp add: filter_empty_conv)
  have f2: "filter (\<lambda>p. snd p \<in> set (target_list t)) (zip cat names) = []"
    using assms(3) by (auto simp: filter_empty_conv dest: set_zip_rightD)
  show ?thesis
    using assms(1,2) load_data_to_exclude [OF assms(1)] f1 f2
    by (simp add: get_data_def split_target_def Let_def count_mask)
qed

theorem get_data_unmatched_target_index_error_witness:
  "fst (get_data ex_env ex_acc_dataset (Some (TStr ''id'')) False False ''dataframe''
          ex_acc_world)
   = Inl IndexError"
proof -
  have ex: "exclude_columns (to_exclude ex_acc_dataset False False)
              (DataFrame ex_acc_cols, [False, False, False, False, True],
               [''id'', ''foo'', ''a'', ''b'', ''c''])
              (ex_acc_world\<lparr>trace := [Log INFO ''pickle load data'' []]\<rparr>)
            = (Inr (DataFrame (drop 2 ex_acc_cols), [False, False, True], [''a'', ''b'', ''c'']),
               snd (exclude_columns (to_exclude ex_acc_dataset False False)
              (DataFrame ex_acc_cols, [False, False, False, False, True],
               [''id'', ''foo'', ''a'', ''b'', ''c''])
              (ex_acc_world\<lparr>trace := [Log INFO ''pickle load data'' []]\<rparr>)))"
    by (simp add: exclude_columns_def to_exclude_def attr_names_def select_columns_def
                  mask_filter_def Let_def acc_defs)
  have n: "\<forall>column\<in>set [''a'', ''b'', ''c'']. column \<notin> set (target_list (TStr ''id''))"
    by (simp add: target_list_def)
  from get_data_unmatched_target_index_error [OF ex_acc_load ex n, of "''dataframe''"]
  show ?thesis by simp
qed

end
